theory Spec2Isabelle
  imports Main "HOL-Library.Sublist"
begin

section \<open>Python values and the builtins the endpoints use\<close>

text \<open>
  The module reads one global, \<open>barangay.BARANGAY\<close>, a dictionary keyed by region name.
  Python is dynamically typed and the endpoints themselves test \<open>isinstance(_, dict)\<close> and
  \<open>isinstance(_, list)\<close>, so the values stored below the top level are modelled as the
  JSON-like values they can be: a string, a list, a dictionary, or anything else (\<open>PNone\<close>:
  \<open>None\<close>, a number, a boolean; none of them has \<open>len\<close>, \<open>in\<close>, \<open>keys\<close> or \<open>lower\<close>).
  A dictionary is the list of its items in insertion order. Strings are byte strings: \<open>lower\<close>
  maps the letters \<open>A\<close> to \<open>Z\<close> and leaves every other character alone, which is what
  \<open>str.lower\<close> does on ASCII text.
\<close>

datatype pyval =
    PStr string
  | PList "pyval list"
  | PDict "(string \<times> pyval) list"
  | PNone

datatype error =
    HTTPException nat string
  | AttributeError
  | TypeError
  | KeyError

type_synonym dataset = "(string \<times> pyval) list"

definition and_then :: "error + 'a \<Rightarrow> ('a \<Rightarrow> error + 'b) \<Rightarrow> error + 'b" where
  "and_then m f = (case m of Inl e \<Rightarrow> Inl e | Inr x \<Rightarrow> f x)"

definition is_upper :: "char \<Rightarrow> bool" where
  "is_upper c = (65 \<le> (of_char c :: nat) \<and> (of_char c :: nat) \<le> 90)"

definition char_lower :: "char \<Rightarrow> char" where
  "char_lower c = (if is_upper c then char_of ((of_char c :: nat) + 32) else c)"

definition str_lower :: "string \<Rightarrow> string" where
  "str_lower s = map char_lower s"

text \<open>\<open>needle in hay\<close> on two strings: some suffix of \<open>hay\<close> starts with \<open>needle\<close>.\<close>

fun str_in :: "string \<Rightarrow> string \<Rightarrow> bool" where
  "str_in needle [] = (needle = [])"
| "str_in needle (c # cs) = (prefix needle (c # cs) \<or> str_in needle cs)"

text \<open>\<open>v.items()\<close>, \<open>v.keys()\<close>, \<open>v.values()\<close>: only a dictionary has them.\<close>

fun py_items :: "pyval \<Rightarrow> error + (string \<times> pyval) list" where
  "py_items (PDict kvs) = Inr kvs"
| "py_items _ = Inl AttributeError"

fun py_keys :: "pyval \<Rightarrow> error + string list" where
  "py_keys (PDict kvs) = Inr (map fst kvs)"
| "py_keys _ = Inl AttributeError"

fun py_values :: "pyval \<Rightarrow> error + pyval list" where
  "py_values (PDict kvs) = Inr (map snd kvs)"
| "py_values _ = Inl AttributeError"

text \<open>\<open>len(v)\<close>.\<close>

fun py_len :: "pyval \<Rightarrow> error + nat" where
  "py_len (PStr s) = Inr (length s)"
| "py_len (PList xs) = Inr (length xs)"
| "py_len (PDict kvs) = Inr (length kvs)"
| "py_len PNone = Inl TypeError"

text \<open>
  \<open>k in v\<close> for a string \<open>k\<close>: a key of a dictionary, an element of a list, a substring of
  a string.
\<close>

fun py_in :: "string \<Rightarrow> pyval \<Rightarrow> error + bool" where
  "py_in k (PDict kvs) = Inr (k \<in> set (map fst kvs))"
| "py_in k (PList xs) = Inr (PStr k \<in> set xs)"
| "py_in k (PStr s) = Inr (str_in k s)"
| "py_in k PNone = Inl TypeError"

text \<open>\<open>v[k]\<close> for a string \<open>k\<close>: only a dictionary can be indexed by a string.\<close>

fun py_getitem :: "pyval \<Rightarrow> string \<Rightarrow> error + pyval" where
  "py_getitem (PDict kvs) k = (case map_of kvs k of None \<Rightarrow> Inl KeyError | Some v \<Rightarrow> Inr v)"
| "py_getitem _ k = Inl TypeError"

section \<open>The endpoints\<close>

definition quoted :: "string \<Rightarrow> string" where
  "quoted s = [CHR 0x27] @ s @ [CHR 0x27]"

definition region_not_found :: "string \<Rightarrow> error" where
  "region_not_found region_name =
     HTTPException 404 (''Region '' @ quoted region_name @ '' not found'')"

definition province_not_found :: "string \<Rightarrow> string \<Rightarrow> error" where
  "province_not_found province_name region_name =
     HTTPException 404 (''Province '' @ quoted province_name @ '' not found in region ''
       @ quoted region_name)"

definition municipality_not_found :: "string \<Rightarrow> string \<Rightarrow> error" where
  "municipality_not_found municipality_name province_name =
     HTTPException 404 (''Municipality '' @ quoted municipality_name
       @ '' not found in province '' @ quoted province_name)"

definition no_barangays_found :: "string \<Rightarrow> error" where
  "no_barangays_found barangay_name =
     HTTPException 404 (''No barangays found containing '' @ quoted barangay_name)"

definition get_regions :: "dataset \<Rightarrow> string list" where
  "get_regions BARANGAY = map fst BARANGAY"

definition get_provinces :: "dataset \<Rightarrow> string \<Rightarrow> error + string list" where
  "get_provinces BARANGAY region_name =
     (if region_name \<notin> set (map fst BARANGAY) then Inl (region_not_found region_name)
      else and_then (py_getitem (PDict BARANGAY) region_name) py_keys)"

definition get_municipalities :: "dataset \<Rightarrow> string \<Rightarrow> string \<Rightarrow> error + string list" where
  "get_municipalities BARANGAY region_name province_name =
     (if region_name \<notin> set (map fst BARANGAY) then Inl (region_not_found region_name)
      else and_then (py_getitem (PDict BARANGAY) region_name) (\<lambda>provinces.
        and_then (py_in province_name provinces) (\<lambda>present.
          if \<not> present then Inl (province_not_found province_name region_name)
          else and_then (py_getitem provinces province_name) py_keys)))"

definition get_barangays :: "dataset \<Rightarrow> string \<Rightarrow> string \<Rightarrow> string \<Rightarrow> error + pyval" where
  "get_barangays BARANGAY region_name province_name municipality_name =
     (if region_name \<notin> set (map fst BARANGAY) then Inl (region_not_found region_name)
      else and_then (py_getitem (PDict BARANGAY) region_name) (\<lambda>provinces.
        and_then (py_in province_name provinces) (\<lambda>present.
          if \<not> present then Inl (province_not_found province_name region_name)
          else and_then (py_getitem provinces province_name) (\<lambda>municipalities.
            and_then (py_in municipality_name municipalities) (\<lambda>present'.
              if \<not> present'
              then Inl (municipality_not_found municipality_name province_name)
              else py_getitem municipalities municipality_name)))))"

subsection \<open>Search\<close>

record hit =
  barangay :: string
  municipality :: string
  province :: string
  region :: string

record search_response =
  query :: string
  results :: "hit list"
  count :: nat

text \<open>
  The comprehension \<open>[b for b in barangays if barangay_name.lower() in b.lower()]\<close>.
  Only a string has \<open>lower\<close>: the first element that is not one raises
  \<open>AttributeError\<close>. The elements kept are strings, and are returned as such.
\<close>

fun matching_barangays :: "string \<Rightarrow> pyval list \<Rightarrow> error + string list" where
  "matching_barangays barangay_name [] = Inr []"
| "matching_barangays barangay_name (b # bs) =
     (case b of
        PStr s \<Rightarrow>
          and_then (matching_barangays barangay_name bs) (\<lambda>rest.
            Inr (if str_in (str_lower barangay_name) (str_lower s) then s # rest else rest))
      | _ \<Rightarrow> Inl AttributeError)"

text \<open>The loop over \<open>municipalities.items()\<close>; \<open>acc\<close> is the list \<open>results\<close> so far.\<close>

fun search_municipalities ::
  "string \<Rightarrow> string \<Rightarrow> string \<Rightarrow> (string \<times> pyval) list \<Rightarrow> hit list \<Rightarrow> error + hit list" where
  "search_municipalities barangay_name region_name province_name [] acc = Inr acc"
| "search_municipalities barangay_name region_name province_name
     ((municipality_name, barangays) # rest) acc =
     (case barangays of
        PList bs \<Rightarrow>
          and_then (matching_barangays barangay_name bs) (\<lambda>matching.
            search_municipalities barangay_name region_name province_name rest
              (acc @ map (\<lambda>matching_barangay.
                 \<lparr>barangay = matching_barangay, municipality = municipality_name,
                  province = province_name, region = region_name\<rparr>) matching))
      | _ \<Rightarrow> search_municipalities barangay_name region_name province_name rest acc)"

text \<open>The loop over \<open>provinces.items()\<close>.\<close>

fun search_provinces ::
  "string \<Rightarrow> string \<Rightarrow> (string \<times> pyval) list \<Rightarrow> hit list \<Rightarrow> error + hit list" where
  "search_provinces barangay_name region_name [] acc = Inr acc"
| "search_provinces barangay_name region_name ((province_name, municipalities) # rest) acc =
     (case municipalities of
        PDict kvs \<Rightarrow>
          and_then (search_municipalities barangay_name region_name province_name kvs acc)
            (search_provinces barangay_name region_name rest)
      | _ \<Rightarrow> search_provinces barangay_name region_name rest acc)"

text \<open>The loop over \<open>barangay.BARANGAY.items()\<close>.\<close>

fun search_regions :: "string \<Rightarrow> dataset \<Rightarrow> hit list \<Rightarrow> error + hit list" where
  "search_regions barangay_name [] acc = Inr acc"
| "search_regions barangay_name ((region_name, provinces) # rest) acc =
     and_then (py_items provinces) (\<lambda>kvs.
       and_then (search_provinces barangay_name region_name kvs acc)
         (search_regions barangay_name rest))"

definition search_barangay :: "dataset \<Rightarrow> string \<Rightarrow> error + search_response" where
  "search_barangay BARANGAY barangay_name =
     and_then (search_regions barangay_name BARANGAY []) (\<lambda>found.
       if found = [] then Inl (no_barangays_found barangay_name)
       else Inr \<lparr>query = barangay_name, results = found, count = length found\<rparr>)"

subsection \<open>Statistics\<close>

record stats =
  total_regions :: nat
  total_provinces :: nat
  total_municipalities :: nat
  total_barangays :: nat
  data_source :: string

text \<open>\<open>sum(len(provinces) for provinces in barangay.BARANGAY.values())\<close>.\<close>

fun sum_len :: "pyval list \<Rightarrow> nat \<Rightarrow> error + nat" where
  "sum_len [] acc = Inr acc"
| "sum_len (provinces # rest) acc = and_then (py_len provinces) (\<lambda>n. sum_len rest (acc + n))"

text \<open>The loop over \<open>municipalities.values()\<close>, on the running \<open>total_barangays\<close>.\<close>

fun count_barangays :: "pyval list \<Rightarrow> nat \<Rightarrow> nat" where
  "count_barangays [] tb = tb"
| "count_barangays (barangays # rest) tb =
     (case barangays of
        PList bs \<Rightarrow> count_barangays rest (tb + length bs)
      | _ \<Rightarrow> count_barangays rest tb)"

text \<open>
  The loop over \<open>provinces.values()\<close>, on the running pair
  \<open>(total_municipalities, total_barangays)\<close>.
\<close>

fun count_municipalities :: "pyval list \<Rightarrow> nat \<times> nat \<Rightarrow> nat \<times> nat" where
  "count_municipalities [] totals = totals"
| "count_municipalities (municipalities # rest) (tm, tb) =
     (case municipalities of
        PDict kvs \<Rightarrow>
          count_municipalities rest (tm + length kvs, count_barangays (map snd kvs) tb)
      | _ \<Rightarrow> count_municipalities rest (tm, tb))"

text \<open>The loop over \<open>barangay.BARANGAY.values()\<close>.\<close>

fun count_regions :: "pyval list \<Rightarrow> nat \<times> nat \<Rightarrow> error + nat \<times> nat" where
  "count_regions [] totals = Inr totals"
| "count_regions (provinces # rest) totals =
     and_then (py_values provinces) (\<lambda>vs.
       count_regions rest (count_municipalities vs totals))"

definition get_stats :: "dataset \<Rightarrow> error + stats" where
  "get_stats BARANGAY =
     and_then (sum_len (map snd BARANGAY) 0) (\<lambda>tp.
       and_then (count_regions (map snd BARANGAY) (0, 0)) (\<lambda>(tm, tb).
         Inr \<lparr>total_regions = length BARANGAY, total_provinces = tp,
              total_municipalities = tm, total_barangays = tb,
              data_source = ''Philippines Standard Geographic Code (PSGC) 2025''\<rparr>))"

section \<open>The Dataset of the specification\<close>

text \<open>
  The specification's Dataset is a strict four-level tree: region names map to mappings
  of province names, those to mappings of municipality names, those to sequences of
  barangay names, and the keys of one mapping are pairwise different.
\<close>

fun is_str :: "pyval \<Rightarrow> bool" where
  "is_str (PStr s) = True"
| "is_str _ = False"

definition wf_barangays :: "pyval \<Rightarrow> bool" where
  "wf_barangays v = (case v of PList bs \<Rightarrow> list_all is_str bs | _ \<Rightarrow> False)"

definition wf_municipalities :: "pyval \<Rightarrow> bool" where
  "wf_municipalities v =
     (case v of
        PDict kvs \<Rightarrow> distinct (map fst kvs) \<and> list_all wf_barangays (map snd kvs)
      | _ \<Rightarrow> False)"

definition wf_provinces :: "pyval \<Rightarrow> bool" where
  "wf_provinces v =
     (case v of
        PDict kvs \<Rightarrow> distinct (map fst kvs) \<and> list_all wf_municipalities (map snd kvs)
      | _ \<Rightarrow> False)"

definition wf_dataset :: "dataset \<Rightarrow> bool" where
  "wf_dataset BARANGAY =
     (distinct (map fst BARANGAY) \<and> list_all wf_provinces (map snd BARANGAY))"

text \<open>
  The shapes the \<open>isinstance\<close> guards of the source allow for: below a region, the value
  of a province may be anything, and so may the value of a municipality; where it is a list,
  its elements are strings.
\<close>

definition guarded_barangays :: "pyval \<Rightarrow> bool" where
  "guarded_barangays v = (case v of PList bs \<Rightarrow> list_all is_str bs | _ \<Rightarrow> True)"

definition guarded_municipalities :: "pyval \<Rightarrow> bool" where
  "guarded_municipalities v =
     (case v of PDict kvs \<Rightarrow> list_all guarded_barangays (map snd kvs) | _ \<Rightarrow> True)"

definition guarded_provinces :: "pyval \<Rightarrow> bool" where
  "guarded_provinces v =
     (case v of PDict kvs \<Rightarrow> list_all guarded_municipalities (map snd kvs) | _ \<Rightarrow> False)"

definition guarded_dataset :: "dataset \<Rightarrow> bool" where
  "guarded_dataset BARANGAY = list_all guarded_provinces (map snd BARANGAY)"

text \<open>The entries of a mapping, in stored order; a value that is not a mapping has none.\<close>

fun entries :: "pyval \<Rightarrow> (string \<times> pyval) list" where
  "entries (PDict kvs) = kvs"
| "entries _ = []"

text \<open>The names of a sequence, in list order; a value that is not a sequence has none.\<close>

fun names :: "pyval \<Rightarrow> string list" where
  "names (PList bs) = concat (map (\<lambda>b. case b of PStr s \<Rightarrow> [s] | _ \<Rightarrow> []) bs)"
| "names _ = []"

text \<open>The length of a sequence; a value that is not a sequence counts for nothing.\<close>

fun seq_len :: "pyval \<Rightarrow> nat" where
  "seq_len (PList bs) = length bs"
| "seq_len _ = 0"

text \<open>
  Every barangay occurrence with its ancestry, in traversal order: regions in Dataset
  order, then provinces, then municipalities, then the barangays in list order.
\<close>

definition hits_of_municipality :: "string \<Rightarrow> string \<Rightarrow> string \<times> pyval \<Rightarrow> hit list" where
  "hits_of_municipality r p mb =
     map (\<lambda>b. \<lparr>barangay = b, municipality = fst mb, province = p, region = r\<rparr>)
       (names (snd mb))"

definition hits_of_province :: "string \<Rightarrow> string \<times> pyval \<Rightarrow> hit list" where
  "hits_of_province r pm = concat (map (hits_of_municipality r (fst pm)) (entries (snd pm)))"

definition hits_of_region :: "string \<times> pyval \<Rightarrow> hit list" where
  "hits_of_region rp = concat (map (hits_of_province (fst rp)) (entries (snd rp)))"

definition all_barangays :: "dataset \<Rightarrow> hit list" where
  "all_barangays BARANGAY = concat (map hits_of_region BARANGAY)"

text \<open>
  The match predicate of the specification: the query, lowercased, appears somewhere
  within the name, lowercased.
\<close>

definition name_contains :: "string \<Rightarrow> string \<Rightarrow> bool" where
  "name_contains q name = sublist (str_lower q) (str_lower name)"

definition matches :: "dataset \<Rightarrow> string \<Rightarrow> hit list" where
  "matches BARANGAY q = filter (\<lambda>h. name_contains q (barangay h)) (all_barangays BARANGAY)"

text \<open>The four counts of the specification.\<close>

definition province_count :: "dataset \<Rightarrow> nat" where
  "province_count BARANGAY = (\<Sum>rp\<leftarrow>BARANGAY. length (entries (snd rp)))"

definition municipality_count :: "dataset \<Rightarrow> nat" where
  "municipality_count BARANGAY =
     (\<Sum>rp\<leftarrow>BARANGAY. \<Sum>pm\<leftarrow>entries (snd rp). length (entries (snd pm)))"

definition barangay_count :: "dataset \<Rightarrow> nat" where
  "barangay_count BARANGAY =
     (\<Sum>rp\<leftarrow>BARANGAY. \<Sum>pm\<leftarrow>entries (snd rp). \<Sum>mb\<leftarrow>entries (snd pm). seq_len (snd mb))"

text \<open>
  The sum of \<open>len(get_barangays(r, p, m))\<close> over every triple that \<open>get_regions\<close>,
  \<open>get_provinces\<close> and \<open>get_municipalities\<close> enumerate; a failing call fails the sum.
\<close>

fun sum_over :: "'a list \<Rightarrow> ('a \<Rightarrow> error + nat) \<Rightarrow> error + nat" where
  "sum_over [] f = Inr 0"
| "sum_over (x # xs) f = and_then (f x) (\<lambda>n. and_then (sum_over xs f) (\<lambda>k. Inr (n + k)))"

definition enumerated_total :: "dataset \<Rightarrow> error + nat" where
  "enumerated_total BARANGAY =
     sum_over (get_regions BARANGAY) (\<lambda>r.
       and_then (get_provinces BARANGAY r) (\<lambda>ps.
         sum_over ps (\<lambda>p.
           and_then (get_municipalities BARANGAY r p) (\<lambda>ms.
             sum_over ms (\<lambda>m.
               and_then (get_barangays BARANGAY r p m) py_len)))))"



subsection \<open>Example Datasets\<close>

text \<open>The Dataset of the specification's concrete scenario, and a larger one.\<close>

definition scenario :: dataset where
  "scenario =
     [(''RegionA'', PDict [(''ProvinceX'', PDict [(''MunicipalityY'',
        PList [PStr ''North Poblacion'', PStr ''South Poblacion''])])])]"

definition sample :: dataset where
  "sample =
     [(''NCR'', PDict
        [(''Metro Manila'', PDict
           [(''Makati'', PList [PStr ''Poblacion'', PStr ''Bel-Air'', PStr ''Poblacion'']),
            (''Pasig'', PList [PStr ''San Antonio''])])]),
      (''Region IV-A'', PDict
        [(''Laguna'', PDict [(''Calamba'', PList [PStr ''Makiling'', PStr ''POBLACION UNO''])]),
         (''Cavite'', PDict [])])]"


section \<open>Properties of the model\<close>

subsection \<open>Builtins\<close>

lemma str_in_sublist: "str_in needle hay = sublist needle hay"
  by (induction hay) (auto simp: sublist_Cons_right)

lemma and_then_Inr [simp]: "and_then (Inr x) f = f x"
  by (simp add: and_then_def)

lemma and_then_Inl [simp]: "and_then (Inl e) f = Inl e"
  by (simp add: and_then_def)

subsection \<open>The search loops\<close>

lemma matching_barangays_strs:
  "list_all is_str bs \<Longrightarrow>
     matching_barangays q bs = Inr (filter (name_contains q) (names (PList bs)))"
proof (induction bs)
  case Nil
  then show ?case by simp
next
  case (Cons b bs)
  then obtain s where b: "b = PStr s" by (cases b) auto
  from Cons show ?case
    by (simp add: b str_in_sublist name_contains_def)
qed


lemma search_municipalities_guarded:
  "list_all guarded_barangays (map snd kvs) \<Longrightarrow>
     search_municipalities q r p kvs acc =
       Inr (acc @ filter (\<lambda>h. name_contains q (barangay h))
                    (concat (map (hits_of_municipality r p) kvs)))"
proof (induction kvs arbitrary: acc)
  case Nil
  then show ?case by simp
next
  case (Cons kv kvs)
  obtain m v where kv: "kv = (m, v)" by (cases kv)
  from Cons.prems have rest: "list_all guarded_barangays (map snd kvs)" by simp
  show ?case
  proof (cases v)
    case (PList bs)
    with Cons.prems kv have "list_all is_str bs" by (simp add: guarded_barangays_def)
    then show ?thesis
      by (simp add: kv PList matching_barangays_strs Cons.IH [OF rest]
          hits_of_municipality_def filter_map comp_def)
  qed (simp_all add: kv Cons.IH [OF rest] hits_of_municipality_def)
qed

lemma search_provinces_guarded:
  "list_all guarded_municipalities (map snd kvs) \<Longrightarrow>
     search_provinces q r kvs acc =
       Inr (acc @ filter (\<lambda>h. name_contains q (barangay h))
                    (concat (map (hits_of_province r) kvs)))"
proof (induction kvs arbitrary: acc)
  case Nil
  then show ?case by simp
next
  case (Cons kv kvs)
  obtain p v where kv: "kv = (p, v)" by (cases kv)
  from Cons.prems have rest: "list_all guarded_municipalities (map snd kvs)" by simp
  show ?case
  proof (cases v)
    case (PDict ms)
    with Cons.prems kv have "list_all guarded_barangays (map snd ms)"
      by (simp add: guarded_municipalities_def)
    then show ?thesis
      by (simp add: kv PDict search_municipalities_guarded Cons.IH [OF rest]
          hits_of_province_def)
  qed (simp_all add: kv Cons.IH [OF rest] hits_of_province_def)
qed

lemma search_regions_guarded:
  "list_all guarded_provinces (map snd B) \<Longrightarrow>
     search_regions q B acc =
       Inr (acc @ filter (\<lambda>h. name_contains q (barangay h))
                    (concat (map hits_of_region B)))"
proof (induction B arbitrary: acc)
  case Nil
  then show ?case by simp
next
  case (Cons kv B)
  obtain r v where kv: "kv = (r, v)" by (cases kv)
  from Cons.prems have rest: "list_all guarded_provinces (map snd B)" by simp
  from Cons.prems kv obtain ps where v: "v = PDict ps"
    and ps: "list_all guarded_municipalities (map snd ps)"
    by (cases v) (simp_all add: guarded_provinces_def)
  show ?case
    by (simp add: kv v search_provinces_guarded [OF ps] Cons.IH [OF rest] hits_of_region_def)
qed

lemma search_barangay_guarded:
  "guarded_dataset B \<Longrightarrow>
     search_barangay B q =
       (if matches B q = [] then Inl (no_barangays_found q)
        else Inr \<lparr>query = q, results = matches B q, count = length (matches B q)\<rparr>)"
  by (simp add: search_barangay_def guarded_dataset_def search_regions_guarded
      matches_def all_barangays_def)

subsection \<open>A Dataset has the guarded shape\<close>

lemma wf_barangays_guarded: "wf_barangays v \<Longrightarrow> guarded_barangays v"
  by (cases v) (simp_all add: wf_barangays_def guarded_barangays_def)

lemma wf_municipalities_guarded: "wf_municipalities v \<Longrightarrow> guarded_municipalities v"
  by (cases v)
    (auto simp: wf_municipalities_def guarded_municipalities_def list_all_iff
      intro: wf_barangays_guarded)

lemma wf_provinces_guarded: "wf_provinces v \<Longrightarrow> guarded_provinces v"
  by (cases v)
    (auto simp: wf_provinces_def guarded_provinces_def list_all_iff
      intro: wf_municipalities_guarded)

lemma wf_dataset_guarded: "wf_dataset B \<Longrightarrow> guarded_dataset B"
  by (auto simp: wf_dataset_def guarded_dataset_def list_all_iff intro: wf_provinces_guarded)


subsection \<open>The counting loops\<close>

lemma guarded_provinces_dict: "guarded_provinces v \<Longrightarrow> \<exists>ps. v = PDict ps"
  by (cases v) (simp_all add: guarded_provinces_def)

lemma sum_len_guarded:
  "list_all guarded_provinces vs \<Longrightarrow>
     sum_len vs acc = Inr (acc + (\<Sum>v\<leftarrow>vs. length (entries v)))"
proof (induction vs arbitrary: acc)
  case Nil
  then show ?case by simp
next
  case (Cons v vs)
  from Cons.prems have "guarded_provinces v" by simp
  then obtain ps where "v = PDict ps" by (blast dest: guarded_provinces_dict)
  with Cons show ?case by simp
qed

lemma count_barangays_sum: "count_barangays vs tb = tb + (\<Sum>v\<leftarrow>vs. seq_len v)"
proof (induction vs arbitrary: tb)
  case Nil
  then show ?case by simp
next
  case (Cons v vs)
  then show ?case by (cases v) simp_all
qed

lemma count_municipalities_sum:
  "count_municipalities vs (tm, tb) =
     (tm + (\<Sum>v\<leftarrow>vs. length (entries v)),
      tb + (\<Sum>v\<leftarrow>vs. \<Sum>mb\<leftarrow>entries v. seq_len (snd mb)))"
proof (induction vs arbitrary: tm tb)
  case Nil
  then show ?case by simp
next
  case (Cons v vs)
  then show ?case by (cases v) (simp_all add: count_barangays_sum comp_def)
qed

lemma count_regions_guarded:
  "list_all guarded_provinces vs \<Longrightarrow>
     count_regions vs (tm, tb) =
       Inr (tm + (\<Sum>v\<leftarrow>vs. \<Sum>pm\<leftarrow>entries v. length (entries (snd pm))),
            tb + (\<Sum>v\<leftarrow>vs. \<Sum>pm\<leftarrow>entries v. \<Sum>mb\<leftarrow>entries (snd pm). seq_len (snd mb)))"
proof (induction vs arbitrary: tm tb)
  case Nil
  then show ?case by simp
next
  case (Cons v vs)
  from Cons.prems have "guarded_provinces v" by simp
  then obtain ps where "v = PDict ps" by (blast dest: guarded_provinces_dict)
  with Cons show ?case by (simp add: count_municipalities_sum comp_def)
qed

lemma get_stats_guarded:
  "guarded_dataset B \<Longrightarrow>
     get_stats B =
       Inr \<lparr>total_regions = length B, total_provinces = province_count B,
            total_municipalities = municipality_count B, total_barangays = barangay_count B,
            data_source = ''Philippines Standard Geographic Code (PSGC) 2025''\<rparr>"
  by (simp add: get_stats_def guarded_dataset_def sum_len_guarded count_regions_guarded
      province_count_def municipality_count_def barangay_count_def comp_def)


subsection \<open>Lookups\<close>

lemma key_mem_iff: "k \<in> fst ` set kvs \<longleftrightarrow> map_of kvs k \<noteq> None"
  by (simp add: map_of_eq_None_iff)

lemma wf_dataset_lookup: "wf_dataset B \<Longrightarrow> map_of B r = Some v \<Longrightarrow> wf_provinces v"
  by (auto simp: wf_dataset_def list_all_iff dest: map_of_SomeD)

lemma wf_provinces_lookup:
  "wf_provinces v \<Longrightarrow> map_of (entries v) p = Some w \<Longrightarrow> wf_municipalities w"
  by (cases v) (auto simp: wf_provinces_def list_all_iff dest: map_of_SomeD)

lemma wf_provinces_dict: "wf_provinces v \<Longrightarrow> v = PDict (entries v)"
  by (cases v) (simp_all add: wf_provinces_def)

lemma wf_municipalities_dict: "wf_municipalities v \<Longrightarrow> v = PDict (entries v)"
  by (cases v) (simp_all add: wf_municipalities_def)

lemma get_provinces_lookup:
  "get_provinces B r =
     (case map_of B r of None \<Rightarrow> Inl (region_not_found r) | Some ps \<Rightarrow> py_keys ps)"
  by (cases "map_of B r") (simp_all add: get_provinces_def key_mem_iff)

lemma get_municipalities_lookup:
  "wf_dataset B \<Longrightarrow>
   get_municipalities B r p =
     (case map_of B r of
        None \<Rightarrow> Inl (region_not_found r)
      | Some ps \<Rightarrow>
          (case map_of (entries ps) p of
             None \<Rightarrow> Inl (province_not_found p r)
           | Some ms \<Rightarrow> Inr (map fst (entries ms))))"
proof (cases "map_of B r")
  case None
  then show ?thesis by (simp add: get_municipalities_def key_mem_iff)
next
  case (Some v)
  assume wf: "wf_dataset B"
  from wf Some have v: "wf_provinces v" by (rule wf_dataset_lookup)
  then obtain ps where ps: "v = PDict ps" using wf_provinces_dict by blast
  show ?thesis
  proof (cases "map_of ps p")
    case None
    with Some ps show ?thesis
      by (simp add: get_municipalities_def key_mem_iff)
  next
    case (Some w)
    with v ps have "wf_municipalities w" using wf_provinces_lookup [of v p w] by simp
    then obtain ms where ms: "w = PDict ms" using wf_municipalities_dict by blast
    from \<open>map_of B r = Some v\<close> Some ps ms show ?thesis
      by (simp add: get_municipalities_def key_mem_iff)
  qed
qed

lemma get_barangays_lookup:
  "wf_dataset B \<Longrightarrow>
   get_barangays B r p m =
     (case map_of B r of
        None \<Rightarrow> Inl (region_not_found r)
      | Some ps \<Rightarrow>
          (case map_of (entries ps) p of
             None \<Rightarrow> Inl (province_not_found p r)
           | Some ms \<Rightarrow>
               (case map_of (entries ms) m of
                  None \<Rightarrow> Inl (municipality_not_found m p)
                | Some bs \<Rightarrow> Inr bs)))"
proof (cases "map_of B r")
  case None
  then show ?thesis by (simp add: get_barangays_def key_mem_iff)
next
  case (Some v)
  assume wf: "wf_dataset B"
  from wf Some have v: "wf_provinces v" by (rule wf_dataset_lookup)
  then obtain ps where ps: "v = PDict ps" using wf_provinces_dict by blast
  show ?thesis
  proof (cases "map_of ps p")
    case None
    with Some ps show ?thesis
      by (simp add: get_barangays_def key_mem_iff)
  next
    case (Some w)
    with v ps have "wf_municipalities w" using wf_provinces_lookup [of v p w] by simp
    then obtain ms where ms: "w = PDict ms" using wf_municipalities_dict by blast
    from \<open>map_of B r = Some v\<close> Some ps ms show ?thesis
      by (cases "map_of ms m") (simp_all add: get_barangays_def key_mem_iff)
  qed
qed


subsection \<open>Enumerating the Dataset through the lookups\<close>

lemma sum_over_keys:
  "(\<And>k v. (k, v) \<in> set kvs \<Longrightarrow> f k = Inr (g (k, v))) \<Longrightarrow>
     sum_over (map fst kvs) f = Inr (\<Sum>kv\<leftarrow>kvs. g kv)"
proof (induction kvs)
  case Nil
  then show ?case by simp
next
  case (Cons kv kvs)
  obtain k v where kv: "kv = (k, v)" by (cases kv)
  from Cons.prems kv have "f k = Inr (g (k, v))" by simp
  moreover have "sum_over (map fst kvs) f = Inr (\<Sum>kv\<leftarrow>kvs. g kv)"
    by (rule Cons.IH) (simp add: Cons.prems)
  ultimately show ?case by (simp add: kv)
qed

lemma wf_barangays_len: "wf_barangays v \<Longrightarrow> py_len v = Inr (seq_len v)"
  by (cases v) (simp_all add: wf_barangays_def)

lemma wf_municipalities_entry:
  "wf_municipalities w \<Longrightarrow> (m, bs) \<in> set (entries w) \<Longrightarrow>
     map_of (entries w) m = Some bs \<and> wf_barangays bs"
  by (cases w) (auto simp: wf_municipalities_def list_all_iff)

lemma wf_provinces_entry:
  "wf_provinces v \<Longrightarrow> (p, w) \<in> set (entries v) \<Longrightarrow>
     map_of (entries v) p = Some w \<and> wf_municipalities w"
  by (cases v) (auto simp: wf_provinces_def list_all_iff)

lemma wf_dataset_entry:
  "wf_dataset B \<Longrightarrow> (r, v) \<in> set B \<Longrightarrow> map_of B r = Some v \<and> wf_provinces v"
  by (auto simp: wf_dataset_def list_all_iff)

lemma enumerated_municipality:
  assumes "wf_dataset B" and "(r, v) \<in> set B" and "(p, w) \<in> set (entries v)"
    and "(m, bs) \<in> set (entries w)"
  shows "and_then (get_barangays B r p m) py_len = Inr (seq_len bs)"
proof -
  from assms(1,2) have v: "map_of B r = Some v" "wf_provinces v"
    by (simp_all add: wf_dataset_entry)
  from v(2) assms(3) have w: "map_of (entries v) p = Some w" "wf_municipalities w"
    by (simp_all add: wf_provinces_entry)
  from w(2) assms(4) have bs: "map_of (entries w) m = Some bs" "wf_barangays bs"
    by (simp_all add: wf_municipalities_entry)
  show ?thesis
    by (simp add: get_barangays_lookup [OF assms(1)] v(1) w(1) bs(1) wf_barangays_len [OF bs(2)])
qed

lemma enumerated_province:
  assumes "wf_dataset B" and "(r, v) \<in> set B" and "(p, w) \<in> set (entries v)"
  shows "and_then (get_municipalities B r p) (\<lambda>ms.
           sum_over ms (\<lambda>m. and_then (get_barangays B r p m) py_len)) =
         Inr (\<Sum>mb\<leftarrow>entries w. seq_len (snd mb))"
proof -
  from assms(1,2) have v: "map_of B r = Some v" "wf_provinces v"
    by (simp_all add: wf_dataset_entry)
  from v(2) assms(3) have w: "map_of (entries v) p = Some w"
    by (simp add: wf_provinces_entry)
  have "sum_over (map fst (entries w)) (\<lambda>m. and_then (get_barangays B r p m) py_len) =
        Inr (\<Sum>mb\<leftarrow>entries w. seq_len (snd mb))"
    by (rule sum_over_keys) (simp add: enumerated_municipality [OF assms])
  then show ?thesis
    by (simp add: get_municipalities_lookup [OF assms(1)] v(1) w)
qed

lemma enumerated_region:
  assumes "wf_dataset B" and "(r, v) \<in> set B"
  shows "and_then (get_provinces B r) (\<lambda>ps.
           sum_over ps (\<lambda>p. and_then (get_municipalities B r p) (\<lambda>ms.
             sum_over ms (\<lambda>m. and_then (get_barangays B r p m) py_len)))) =
         Inr (\<Sum>pm\<leftarrow>entries v. \<Sum>mb\<leftarrow>entries (snd pm). seq_len (snd mb))"
proof -
  from assms have v: "map_of B r = Some v" "wf_provinces v"
    by (simp_all add: wf_dataset_entry)
  from v(2) have keys: "py_keys v = Inr (map fst (entries v))"
    by (cases v) (simp_all add: wf_provinces_def)
  have "sum_over (map fst (entries v)) (\<lambda>p. and_then (get_municipalities B r p) (\<lambda>ms.
             sum_over ms (\<lambda>m. and_then (get_barangays B r p m) py_len))) =
        Inr (\<Sum>pm\<leftarrow>entries v. \<Sum>mb\<leftarrow>entries (snd pm). seq_len (snd mb))"
    by (rule sum_over_keys) (simp add: enumerated_province [OF assms])
  then show ?thesis
    by (simp add: get_provinces_lookup v(1) keys)
qed

lemma enumerated_total_wf:
  assumes "wf_dataset B"
  shows "enumerated_total B = Inr (barangay_count B)"
  unfolding enumerated_total_def get_regions_def barangay_count_def
  by (rule sum_over_keys) (simp add: enumerated_region [OF assms])

subsection \<open>Letter case\<close>




subsection \<open>Counting the traversal\<close>

lemma names_length: "guarded_barangays v \<Longrightarrow> length (names v) = seq_len v"
proof (cases v)
  case (PList bs)
  assume "guarded_barangays v"
  with PList have "list_all is_str bs" by (simp add: guarded_barangays_def)
  then have "length (concat (map (\<lambda>b. case b of PStr s \<Rightarrow> [s] | _ \<Rightarrow> []) bs)) = length bs"
    by (induction bs) (auto split: pyval.splits)
  with PList show ?thesis by simp
qed simp_all

lemma hits_of_province_length:
  assumes "guarded_municipalities (snd pm)"
  shows "length (hits_of_province r pm) = (\<Sum>mb\<leftarrow>entries (snd pm). seq_len (snd mb))"
proof -
  from assms have "\<forall>mb \<in> set (entries (snd pm)). guarded_barangays (snd mb)"
    by (cases "snd pm") (auto simp: guarded_municipalities_def list_all_iff)
  then have "map (\<lambda>mb. length (hits_of_municipality r (fst pm) mb)) (entries (snd pm)) =
             map (\<lambda>mb. seq_len (snd mb)) (entries (snd pm))"
    by (simp add: hits_of_municipality_def names_length)
  then have "(\<Sum>mb\<leftarrow>entries (snd pm). length (hits_of_municipality r (fst pm) mb)) =
             (\<Sum>mb\<leftarrow>entries (snd pm). seq_len (snd mb))"
    by (rule arg_cong)
  then show ?thesis by (simp add: hits_of_province_def length_concat comp_def)
qed

lemma hits_of_region_length:
  assumes "guarded_provinces (snd rp)"
  shows "length (hits_of_region rp) =
           (\<Sum>pm\<leftarrow>entries (snd rp). \<Sum>mb\<leftarrow>entries (snd pm). seq_len (snd mb))"
proof -
  from assms have "\<forall>pm \<in> set (entries (snd rp)). guarded_municipalities (snd pm)"
    by (cases "snd rp") (auto simp: guarded_provinces_def list_all_iff)
  then have "map (\<lambda>pm. length (hits_of_province (fst rp) pm)) (entries (snd rp)) =
             map (\<lambda>pm. \<Sum>mb\<leftarrow>entries (snd pm). seq_len (snd mb)) (entries (snd rp))"
    by (simp add: hits_of_province_length)
  then have "(\<Sum>pm\<leftarrow>entries (snd rp). length (hits_of_province (fst rp) pm)) =
             (\<Sum>pm\<leftarrow>entries (snd rp). \<Sum>mb\<leftarrow>entries (snd pm). seq_len (snd mb))"
    by (rule arg_cong)
  then show ?thesis by (simp add: hits_of_region_def length_concat comp_def)
qed

lemma all_barangays_length:
  assumes "guarded_dataset B"
  shows "length (all_barangays B) = barangay_count B"
proof -
  from assms have "\<forall>rp \<in> set B. guarded_provinces (snd rp)"
    by (auto simp: guarded_dataset_def list_all_iff)
  then have "map (\<lambda>rp. length (hits_of_region rp)) B =
             map (\<lambda>rp. \<Sum>pm\<leftarrow>entries (snd rp). \<Sum>mb\<leftarrow>entries (snd pm). seq_len (snd mb)) B"
    by (simp add: hits_of_region_length)
  then have "(\<Sum>rp\<leftarrow>B. length (hits_of_region rp)) =
             (\<Sum>rp\<leftarrow>B. \<Sum>pm\<leftarrow>entries (snd rp). \<Sum>mb\<leftarrow>entries (snd pm). seq_len (snd mb))"
    by (rule arg_cong)
  then show ?thesis by (simp add: all_barangays_def barangay_count_def length_concat comp_def)
qed

lemma matches_empty_query: "matches B [] = all_barangays B"
  by (simp add: matches_def name_contains_def str_lower_def)

section \<open>The claims\<close>



text \<open>
  C2. On every Dataset \<open>get_stats\<close> succeeds: \<open>total_regions\<close> is the number of top-level
  keys, \<open>total_provinces\<close> the sum over the regions of their number of provinces,
  \<open>total_municipalities\<close> the sum over the (region, province) pairs of their number of
  municipalities, and \<open>total_barangays\<close> the sum over all municipalities of the length of
  their list, duplicates counted. On the empty Dataset the four counts are zero.
\<close>

theorem get_stats_counts:
  assumes "wf_dataset BARANGAY"
  shows "get_stats BARANGAY =
           Inr \<lparr>total_regions = length (get_regions BARANGAY),
                total_provinces = province_count BARANGAY,
                total_municipalities = municipality_count BARANGAY,
                total_barangays = barangay_count BARANGAY,
                data_source = ''Philippines Standard Geographic Code (PSGC) 2025''\<rparr>
         \<and> get_stats [] =
           Inr \<lparr>total_regions = 0, total_provinces = 0, total_municipalities = 0,
                total_barangays = 0,
                data_source = ''Philippines Standard Geographic Code (PSGC) 2025''\<rparr>"
proof
  from assms have "guarded_dataset BARANGAY" by (rule wf_dataset_guarded)
  then show "get_stats BARANGAY =
           Inr \<lparr>total_regions = length (get_regions BARANGAY),
                total_provinces = province_count BARANGAY,
                total_municipalities = municipality_count BARANGAY,
                total_barangays = barangay_count BARANGAY,
                data_source = ''Philippines Standard Geographic Code (PSGC) 2025''\<rparr>"
    by (simp add: get_stats_guarded get_regions_def)
  show "get_stats [] =
           Inr \<lparr>total_regions = 0, total_provinces = 0, total_municipalities = 0,
                total_barangays = 0,
                data_source = ''Philippines Standard Geographic Code (PSGC) 2025''\<rparr>"
    by (simp add: get_stats_def)
qed

theorem get_stats_counts_witness:
  "wf_dataset sample \<and>
   get_stats sample =
     Inr \<lparr>total_regions = 2, total_provinces = 3, total_municipalities = 3,
          total_barangays = 6,
          data_source = ''Philippines Standard Geographic Code (PSGC) 2025''\<rparr>"
proof -
  have wf: "wf_dataset sample"
    by code_simp
  have counts: "length (get_regions sample) = 2" "province_count sample = 3"
    "municipality_count sample = 3" "barangay_count sample = 6"
    by code_simp+
  from get_stats_counts [OF wf] wf counts show ?thesis
    by simp
qed





text \<open>
  C5, as the specification states it: on every Dataset \<open>search("")\<close> returns every barangay
  and the number of returned records equals \<open>total_barangays\<close>. On the empty Dataset the
  search raises its 404 instead of returning no records, while \<open>total_barangays\<close> is 0.
\<close>

theorem search_empty_query_empty_dataset:
  "wf_dataset [] \<and> search_barangay [] [] = Inl (no_barangays_found []) \<and>
   get_stats [] =
     Inr \<lparr>total_regions = 0, total_provinces = 0, total_municipalities = 0,
          total_barangays = 0,
          data_source = ''Philippines Standard Geographic Code (PSGC) 2025''\<rparr>"
  by (simp add: wf_dataset_def search_barangay_def get_stats_def)

text \<open>
  C5, amended: on every Dataset \<open>search("")\<close> collects every barangay of the Dataset in
  traversal order and, when there is at least one, returns them all, their number being
  \<open>total_barangays\<close> of \<open>get_stats\<close>; on a Dataset without any barangay it raises its 404.
\<close>

theorem search_empty_query_all_barangays:
  assumes "wf_dataset BARANGAY"
  shows "search_barangay BARANGAY [] =
           (if all_barangays BARANGAY = [] then Inl (no_barangays_found [])
            else Inr \<lparr>query = [], results = all_barangays BARANGAY,
                      count = length (all_barangays BARANGAY)\<rparr>)
         \<and> (\<exists>s. get_stats BARANGAY = Inr s
                \<and> total_barangays s = length (all_barangays BARANGAY))"
proof -
  from assms have g: "guarded_dataset BARANGAY" by (rule wf_dataset_guarded)
  from g show ?thesis
    by (simp add: search_barangay_guarded get_stats_guarded matches_empty_query
        all_barangays_length)
qed

theorem search_empty_query_all_barangays_witness:
  "wf_dataset scenario \<and>
   search_barangay scenario [] =
     Inr \<lparr>query = [],
          results =
            [\<lparr>barangay = ''North Poblacion'', municipality = ''MunicipalityY'',
              province = ''ProvinceX'', region = ''RegionA''\<rparr>,
             \<lparr>barangay = ''South Poblacion'', municipality = ''MunicipalityY'',
              province = ''ProvinceX'', region = ''RegionA''\<rparr>],
          count = 2\<rparr> \<and>
   get_stats scenario =
     Inr \<lparr>total_regions = 1, total_provinces = 1, total_municipalities = 1,
          total_barangays = 2,
          data_source = ''Philippines Standard Geographic Code (PSGC) 2025''\<rparr>"
proof -
  have wf: "wf_dataset scenario"
    by code_simp
  have every: "all_barangays scenario =
      [\<lparr>barangay = ''North Poblacion'', municipality = ''MunicipalityY'',
        province = ''ProvinceX'', region = ''RegionA''\<rparr>,
       \<lparr>barangay = ''South Poblacion'', municipality = ''MunicipalityY'',
        province = ''ProvinceX'', region = ''RegionA''\<rparr>]"
    by code_simp
  have st: "get_stats scenario =
     Inr \<lparr>total_regions = 1, total_provinces = 1, total_municipalities = 1,
          total_barangays = 2,
          data_source = ''Philippines Standard Geographic Code (PSGC) 2025''\<rparr>"
    by code_simp
  from search_empty_query_all_barangays [OF wf] wf every st show ?thesis
    by simp
qed

text \<open>
  C6. On every Dataset \<open>total_barangays\<close> of \<open>get_stats\<close> equals the sum of the lengths
  of \<open>get_barangays(r, p, m)\<close> over every triple enumerated through \<open>get_regions\<close>,
  \<open>get_provinces\<close> and \<open>get_municipalities\<close>, none of these calls failing.
\<close>

theorem total_barangays_enumerated:
  assumes "wf_dataset BARANGAY"
  shows "\<exists>s. get_stats BARANGAY = Inr s \<and> enumerated_total BARANGAY = Inr (total_barangays s)"
proof -
  from assms have "guarded_dataset BARANGAY" by (rule wf_dataset_guarded)
  then show ?thesis
    by (simp add: get_stats_guarded enumerated_total_wf [OF assms])
qed

theorem total_barangays_enumerated_witness:
  "wf_dataset sample \<and> enumerated_total sample = Inr 6 \<and>
   get_stats sample =
     Inr \<lparr>total_regions = 2, total_provinces = 3, total_municipalities = 3,
          total_barangays = 6,
          data_source = ''Philippines Standard Geographic Code (PSGC) 2025''\<rparr>"
proof -
  have wf: "wf_dataset sample"
    by code_simp
  have st: "get_stats sample =
     Inr \<lparr>total_regions = 2, total_provinces = 3, total_municipalities = 3,
          total_barangays = 6,
          data_source = ''Philippines Standard Geographic Code (PSGC) 2025''\<rparr>"
    by code_simp
  from total_barangays_enumerated [OF wf] wf st show ?thesis
    by auto
qed



text \<open>
  C8. On every Dataset \<open>get_provinces\<close> raises the 404 naming the region when the region is
  not a key of the Dataset, and otherwise returns the province keys stored under that
  region, in stored order.
\<close>

theorem get_provinces_stored_keys:
  assumes "wf_dataset BARANGAY"
  shows "(region_name \<notin> set (get_regions BARANGAY) \<longrightarrow>
            get_provinces BARANGAY region_name = Inl (region_not_found region_name))
         \<and> (\<forall>provinces. (region_name, provinces) \<in> set BARANGAY \<longrightarrow>
               get_provinces BARANGAY region_name = Inr (map fst (entries provinces)))"
proof (intro conjI impI allI)
  assume "region_name \<notin> set (get_regions BARANGAY)"
  then show "get_provinces BARANGAY region_name = Inl (region_not_found region_name)"
    by (simp add: get_provinces_def get_regions_def)
next
  fix provinces
  assume "(region_name, provinces) \<in> set BARANGAY"
  with assms have "map_of BARANGAY region_name = Some provinces" "wf_provinces provinces"
    by (simp_all add: wf_dataset_entry)
  then show "get_provinces BARANGAY region_name = Inr (map fst (entries provinces))"
    by (cases provinces) (simp_all add: get_provinces_lookup wf_provinces_def)
qed

theorem get_provinces_stored_keys_witness:
  "wf_dataset sample \<and>
   get_provinces sample ''Region IV-A'' = Inr [''Laguna'', ''Cavite''] \<and>
   get_provinces sample ''RegionZ'' = Inl (HTTPException 404 ''Region 'RegionZ' not found'')"
proof -
  have wf: "wf_dataset sample"
    by code_simp
  have absent: "''RegionZ'' \<notin> set (get_regions sample)"
    by code_simp
  have present: "(''Region IV-A'', PDict
        [(''Laguna'', PDict [(''Calamba'', PList [PStr ''Makiling'', PStr ''POBLACION UNO''])]),
         (''Cavite'', PDict [])]) \<in> set sample"
    by (simp add: sample_def)
  from get_provinces_stored_keys [OF wf, of "''RegionZ''"] absent
  have "get_provinces sample ''RegionZ'' = Inl (region_not_found ''RegionZ'')"
    by simp
  moreover from get_provinces_stored_keys [OF wf, of "''Region IV-A''"] present
  have "get_provinces sample ''Region IV-A'' = Inr [''Laguna'', ''Cavite'']"
    by fastforce
  ultimately show ?thesis
    by (simp add: wf region_not_found_def quoted_def)
qed

text \<open>
  C9. The lookups compare names exactly. On every Dataset, a region argument that is not
  equal to a stored region key makes \<open>get_provinces\<close>, \<open>get_municipalities\<close> and
  \<open>get_barangays\<close> raise the 404 of the region; a province argument not equal to a key
  stored under the region makes \<open>get_municipalities\<close> and \<open>get_barangays\<close> raise the 404 of
  the province; a municipality argument not equal to a key stored under the province makes
  \<open>get_barangays\<close> raise the 404 of the municipality. Equality of strings is character for
  character, so a difference in case or in surrounding blanks is a difference.
\<close>

theorem lookups_compare_exactly:
  assumes "wf_dataset BARANGAY"
  shows "(region_name \<notin> set (get_regions BARANGAY) \<longrightarrow>
            get_provinces BARANGAY region_name = Inl (region_not_found region_name)
            \<and> get_municipalities BARANGAY region_name province_name =
                Inl (region_not_found region_name)
            \<and> get_barangays BARANGAY region_name province_name municipality_name =
                Inl (region_not_found region_name))
         \<and> (\<forall>provinces. (region_name, provinces) \<in> set BARANGAY
               \<and> province_name \<notin> set (map fst (entries provinces)) \<longrightarrow>
               get_municipalities BARANGAY region_name province_name =
                 Inl (province_not_found province_name region_name)
               \<and> get_barangays BARANGAY region_name province_name municipality_name =
                   Inl (province_not_found province_name region_name))
         \<and> (\<forall>provinces municipalities. (region_name, provinces) \<in> set BARANGAY
               \<and> (province_name, municipalities) \<in> set (entries provinces)
               \<and> municipality_name \<notin> set (map fst (entries municipalities)) \<longrightarrow>
               get_barangays BARANGAY region_name province_name municipality_name =
                 Inl (municipality_not_found municipality_name province_name))"
proof (intro conjI impI allI)
  assume "region_name \<notin> set (get_regions BARANGAY)"
  then have absent: "region_name \<notin> set (map fst BARANGAY)"
    by (simp add: get_regions_def)
  from absent show "get_provinces BARANGAY region_name = Inl (region_not_found region_name)"
    by (simp add: get_provinces_def)
  from absent show "get_municipalities BARANGAY region_name province_name =
      Inl (region_not_found region_name)"
    by (simp add: get_municipalities_def)
  from absent show "get_barangays BARANGAY region_name province_name municipality_name =
      Inl (region_not_found region_name)"
    by (simp add: get_barangays_def)
next
  fix provinces
  assume h: "(region_name, provinces) \<in> set BARANGAY
    \<and> province_name \<notin> set (map fst (entries provinces))"
  with assms have r: "map_of BARANGAY region_name = Some provinces"
    by (simp add: wf_dataset_entry)
  from h have p: "map_of (entries provinces) province_name = None"
    by (simp add: map_of_eq_None_iff)
  from r p show "get_municipalities BARANGAY region_name province_name =
      Inl (province_not_found province_name region_name)"
    by (simp add: get_municipalities_lookup [OF assms])
  from r p show "get_barangays BARANGAY region_name province_name municipality_name =
      Inl (province_not_found province_name region_name)"
    by (simp add: get_barangays_lookup [OF assms])
next
  fix provinces municipalities
  assume h: "(region_name, provinces) \<in> set BARANGAY
    \<and> (province_name, municipalities) \<in> set (entries provinces)
    \<and> municipality_name \<notin> set (map fst (entries municipalities))"
  then have h1: "(region_name, provinces) \<in> set BARANGAY"
    and h2: "(province_name, municipalities) \<in> set (entries provinces)"
    and h3: "municipality_name \<notin> set (map fst (entries municipalities))"
    by simp_all
  from assms h1 have r: "map_of BARANGAY region_name = Some provinces" "wf_provinces provinces"
    by (simp_all add: wf_dataset_entry)
  from r(2) h2 have p: "map_of (entries provinces) province_name = Some municipalities"
    by (simp add: wf_provinces_entry)
  from h3 have m: "map_of (entries municipalities) municipality_name = None"
    by (simp add: map_of_eq_None_iff)
  from r(1) p m show "get_barangays BARANGAY region_name province_name municipality_name =
      Inl (municipality_not_found municipality_name province_name)"
    by (simp add: get_barangays_lookup [OF assms])
qed

theorem lookups_compare_exactly_witness:
  "wf_dataset scenario \<and>
   get_provinces scenario ''regiona'' = Inl (region_not_found ''regiona'') \<and>
   get_municipalities scenario '' RegionA'' ''ProvinceX'' = Inl (region_not_found '' RegionA'') \<and>
   get_barangays scenario ''REGIONA'' ''ProvinceX'' ''MunicipalityY'' =
     Inl (region_not_found ''REGIONA'') \<and>
   get_municipalities scenario ''RegionA'' ''provincex'' =
     Inl (province_not_found ''provincex'' ''RegionA'') \<and>
   get_barangays scenario ''RegionA'' ''ProvinceX '' ''MunicipalityY'' =
     Inl (province_not_found ''ProvinceX '' ''RegionA'') \<and>
   get_barangays scenario ''RegionA'' ''ProvinceX'' ''municipalityY'' =
     Inl (municipality_not_found ''municipalityY'' ''ProvinceX'')"
proof -
  have wf: "wf_dataset scenario"
    by code_simp
  have absent: "''regiona'' \<notin> set (get_regions scenario)"
    "'' RegionA'' \<notin> set (get_regions scenario)"
    "''REGIONA'' \<notin> set (get_regions scenario)"
    by code_simp+
  have stored: "(''RegionA'', PDict [(''ProvinceX'', PDict [(''MunicipalityY'',
      PList [PStr ''North Poblacion'', PStr ''South Poblacion''])])]) \<in> set scenario"
    by (simp add: scenario_def)
  from lookups_compare_exactly [OF wf, of "''regiona''"] absent
  have r1: "get_provinces scenario ''regiona'' = Inl (region_not_found ''regiona'')"
    by simp
  from lookups_compare_exactly [OF wf, of "'' RegionA''" "''ProvinceX''"] absent
  have r2: "get_municipalities scenario '' RegionA'' ''ProvinceX'' =
      Inl (region_not_found '' RegionA'')"
    by simp
  from lookups_compare_exactly [OF wf, of "''REGIONA''" "''ProvinceX''" "''MunicipalityY''"]
    absent
  have r3: "get_barangays scenario ''REGIONA'' ''ProvinceX'' ''MunicipalityY'' =
      Inl (region_not_found ''REGIONA'')"
    by simp
  from lookups_compare_exactly [OF wf, of "''RegionA''" "''provincex''"] stored
  have p1: "get_municipalities scenario ''RegionA'' ''provincex'' =
      Inl (province_not_found ''provincex'' ''RegionA'')"
    by fastforce
  from lookups_compare_exactly [OF wf, of "''RegionA''" "''ProvinceX ''" "''MunicipalityY''"]
    stored
  have p2: "get_barangays scenario ''RegionA'' ''ProvinceX '' ''MunicipalityY'' =
      Inl (province_not_found ''ProvinceX '' ''RegionA'')"
    by fastforce
  from lookups_compare_exactly [OF wf, of "''RegionA''" "''ProvinceX''" "''municipalityY''"]
    stored
  have m1: "get_barangays scenario ''RegionA'' ''ProvinceX'' ''municipalityY'' =
      Inl (municipality_not_found ''municipalityY'' ''ProvinceX'')"
    by fastforce
  from wf r1 r2 r3 p1 p2 m1 show ?thesis
    by simp
qed




end
